theory Spec2Isabelle
  imports Complex_Main "HOL-Library.Word" "HOL-Library.Sublist"
begin

section \<open>JavaScript values\<close>

text \<open>
  A JavaScript string is a sequence of UTF-16 code units. String literals of the source
  are written \<open>lit ''...''\<close>: each character of the literal becomes its code unit.
\<close>

type_synonym jschar = "16 word"
type_synonym jsstring = "jschar list"

definition lit :: "string \<Rightarrow> jsstring" where
  "lit s = map of_char s"

text \<open>
  A JavaScript number is a double: NaN, one of the two infinities, or a finite value.
  Every finite double is a rational number, so finite numbers are modelled as rationals.
  The two operations applied to numbers here (\<open>Number.isInteger\<close> and \<open>\<le> 0\<close>)
  give the same answer on \<open>-0\<close> and on \<open>0\<close>, which are therefore not told apart.
\<close>

datatype jsnumber = NaN | PosInfinity | NegInfinity | Finite rat

text \<open>
  The validators take \<open>fieldValue: any\<close>. The length of the list of an \<open>Array\<close>
  is the \<open>length\<close> property of the array; an \<open>Object\<close> is any other object, given by
  its properties.
\<close>

datatype jsvalue =
    Undefined
  | Null
  | Boolean bool
  | Number jsnumber
  | BigInt int
  | String jsstring
  | Symbol jsstring
  | Function nat
  | Object "(jsstring \<times> jsvalue) list"
  | Array "jsvalue list"

text \<open>The \<open>typeof\<close> operator.\<close>

fun typeof :: "jsvalue \<Rightarrow> jsstring" where
  "typeof Undefined = lit ''undefined''"
| "typeof Null = lit ''object''"
| "typeof (Boolean b) = lit ''boolean''"
| "typeof (Number n) = lit ''number''"
| "typeof (BigInt i) = lit ''bigint''"
| "typeof (String s) = lit ''string''"
| "typeof (Symbol d) = lit ''symbol''"
| "typeof (Function f) = lit ''function''"
| "typeof (Object ps) = lit ''object''"
| "typeof (Array vs) = lit ''object''"

text \<open>\<open>Array.isArray\<close>.\<close>

fun Array_isArray :: "jsvalue \<Rightarrow> bool" where
  "Array_isArray (Array vs) = True"
| "Array_isArray v = False"

text \<open>
  \<open>Number.isInteger\<close>: the value is a number, it is finite, and it equals its floor.
\<close>

fun Number_isInteger :: "jsvalue \<Rightarrow> bool" where
  "Number_isInteger (Number (Finite q)) = (of_int \<lfloor>q\<rfloor> = q)"
| "Number_isInteger v = False"

text \<open>
  \<open>fieldValue <= 0\<close>. The source evaluates it only after \<open>Number.isInteger\<close> has held,
  so only on numbers; the comparison with a NaN is false. The coercion of the other values
  is never reached and not modelled: they are given \<open>False\<close>.
\<close>

fun le_zero :: "jsvalue \<Rightarrow> bool" where
  "le_zero (Number (Finite q)) = (q \<le> 0)"
| "le_zero (Number NegInfinity) = True"
| "le_zero v = False"

text \<open>\<open>fieldValue.length\<close> of an array.\<close>

fun array_length :: "jsvalue \<Rightarrow> nat" where
  "array_length (Array vs) = length vs"
| "array_length v = 0"

text \<open>
  The code units of a string value. The source reads them (\<open>fieldValue.trim()\<close>) only
  after \<open>typeof fieldValue === "string"\<close> has held; on the other values nothing is read,
  and the function is given the empty string there.
\<close>

fun string_of :: "jsvalue \<Rightarrow> jsstring" where
  "string_of (String s) = s"
| "string_of v = []"

subsection \<open>Strings\<close>

text \<open>
  The code units that \<open>String.prototype.trim\<close> removes: the WhiteSpace and the
  LineTerminator code points of ECMAScript (TAB, LF, VT, FF, CR, SP, NBSP, U+1680,
  U+2000 to U+200A, LS, PS, U+202F, U+205F, U+3000 and the BOM U+FEFF).
\<close>

definition isWhiteSpace :: "jschar \<Rightarrow> bool" where
  "isWhiteSpace c =
     (c = 0x09 \<or> c = 0x0A \<or> c = 0x0B \<or> c = 0x0C \<or> c = 0x0D \<or> c = 0x20 \<or> c = 0xA0
      \<or> c = 0x1680 \<or> (0x2000 \<le> c \<and> c \<le> 0x200A) \<or> c = 0x2028 \<or> c = 0x2029
      \<or> c = 0x202F \<or> c = 0x205F \<or> c = 0x3000 \<or> c = 0xFEFF)"

definition trim :: "jsstring \<Rightarrow> jsstring" where
  "trim s = rev (dropWhile isWhiteSpace (rev (dropWhile isWhiteSpace s)))"

text \<open>
  \<open>url.replace(/\/$/, "")\<close>: the regular expression is tried at each position from the
  left; it matches where a \<open>/\<close> is followed by the end of the input (there is no \<open>m\<close>
  flag). The first match is replaced by the empty string, and the rest of the string, which
  is then empty, is kept.
\<close>

definition slash :: jschar where
  "slash = of_char (CHR ''/'')"

fun replace_slash_at_end :: "jsstring \<Rightarrow> jsstring" where
  "replace_slash_at_end [] = []"
| "replace_slash_at_end (c # cs) =
     (if c = slash \<and> cs = [] then [] @ cs else c # replace_slash_at_end cs)"

definition removeTrailingSlash :: "jsstring \<Rightarrow> jsstring" where
  "removeTrailingSlash url = replace_slash_at_end url"

definition normalizeUrl :: "jsstring \<Rightarrow> jsstring" where
  "normalizeUrl url = removeTrailingSlash (trim url)"

section \<open>Errors\<close>

text \<open>
  Modelled from the spec: the class \<open>ClientError\<close> is imported from \<open>./ClientError\<close>,
  which is not among the sources. The spec describes the error value as a pair of a
  \<open>code\<close> and a \<open>message\<close>; \<open>new ClientError(c, m)\<close> is the record with these two
  fields.
\<close>

record ClientError =
  code :: jsstring
  message :: jsstring

text \<open>
  A validator returns nothing or throws: its result is \<open>Inr ()\<close> when it returns normally
  and \<open>Inl e\<close> when it throws \<open>e\<close>.
\<close>

type_synonym 'a result = "ClientError + 'a"

section \<open>The validators\<close>

definition checkRequired :: "jsstring \<Rightarrow> jsvalue \<Rightarrow> bool \<Rightarrow> unit result" where
  "checkRequired fieldName fieldValue checkEmptyString =
     (if fieldValue = Null \<or> fieldValue = Undefined then
        Inl \<lparr>code = lit ''missing_required_value'',
             message = fieldName @ lit '' is a required parameter, cannot be left empty''\<rparr>
      else if checkEmptyString \<and>
              (fieldValue = String (lit '''') \<or>
               (typeof fieldValue = lit ''string'' \<and> trim (string_of fieldValue) = lit '''')) then
        Inl \<lparr>code = lit ''missing_required_value'',
             message = fieldName @ lit '' is a required parameter, cannot be left empty''\<rparr>
      else Inr ())"

definition arrayRequired :: "jsstring \<Rightarrow> jsvalue \<Rightarrow> bool \<Rightarrow> unit result" where
  "arrayRequired fieldName fieldValue checkEmptyArray =
     (case checkRequired fieldName fieldValue False of
        Inl e \<Rightarrow> Inl e
      | Inr _ \<Rightarrow>
          if \<not> Array_isArray fieldValue then
            Inl \<lparr>code = lit ''invalid_value'',
                 message = fieldName @ lit '' needs to be an array''\<rparr>
          else if checkEmptyArray \<and> array_length fieldValue = 0 then
            Inl \<lparr>code = lit ''emtpy_array'',
                 message = fieldName @ lit '' needs to be an array with at least one entry''\<rparr>
          else Inr ())"

definition integerRequired :: "jsstring \<Rightarrow> jsvalue \<Rightarrow> bool \<Rightarrow> unit result" where
  "integerRequired fieldName fieldValue checkPositive =
     (case checkRequired fieldName fieldValue False of
        Inl e \<Rightarrow> Inl e
      | Inr _ \<Rightarrow>
          if \<not> Number_isInteger fieldValue then
            Inl \<lparr>code = lit ''invalid_value'',
                 message = fieldName @ lit '' needs to be an integer''\<rparr>
          else if checkPositive \<and> le_zero fieldValue then
            Inl \<lparr>code = lit ''invalid_value'',
                 message = fieldName @ lit '' needs to be a positive integer''\<rparr>
          else Inr ())"

definition objectRequired :: "jsstring \<Rightarrow> jsvalue \<Rightarrow> bool \<Rightarrow> unit result" where
  "objectRequired fieldName fieldValue checkArray =
     (case checkRequired fieldName fieldValue False of
        Inl e \<Rightarrow> Inl e
      | Inr _ \<Rightarrow>
          if typeof fieldValue \<noteq> lit ''object'' then
            Inl \<lparr>code = lit ''invalid_value'',
                 message = fieldName @ lit '' needs to be an object''\<rparr>
          else if \<not> Array_isArray fieldValue \<and> checkArray then
            Inl \<lparr>code = lit ''invalid_value'',
                 message = fieldName @ lit '' needs to be an array''\<rparr>
          else Inr ())"

text \<open>
  The calls that leave the flag out take its default: \<open>checkEmptyString = true\<close>,
  \<open>checkEmptyArray = false\<close>, \<open>checkPositive = true\<close>, \<open>checkArray = false\<close>.
\<close>

definition checkRequired_default :: "jsstring \<Rightarrow> jsvalue \<Rightarrow> unit result" where
  "checkRequired_default fieldName fieldValue = checkRequired fieldName fieldValue True"

definition arrayRequired_default :: "jsstring \<Rightarrow> jsvalue \<Rightarrow> unit result" where
  "arrayRequired_default fieldName fieldValue = arrayRequired fieldName fieldValue False"

definition integerRequired_default :: "jsstring \<Rightarrow> jsvalue \<Rightarrow> unit result" where
  "integerRequired_default fieldName fieldValue = integerRequired fieldName fieldValue True"

definition objectRequired_default :: "jsstring \<Rightarrow> jsvalue \<Rightarrow> unit result" where
  "objectRequired_default fieldName fieldValue = objectRequired fieldName fieldValue False"

text \<open>
  The closed set of error codes of the specification's taxonomy. This definition follows
  the words of the specification, not the source: the codes that the source throws are the
  literals in the four validators above.
\<close>

definition valid_codes :: "jsstring set" where
  "valid_codes = {lit ''missing_required_value'', lit ''invalid_value'', lit ''empty_array''}"

section \<open>Auxiliary facts\<close>

lemma lit_Nil: "lit [] = []"
  by (simp add: lit_def)

lemma checkRequired_absent:
  "v = Null \<or> v = Undefined \<Longrightarrow>
     checkRequired fieldName v checkEmptyString =
       Inl \<lparr>code = lit ''missing_required_value'',
            message = fieldName @ lit '' is a required parameter, cannot be left empty''\<rparr>"
  by (auto simp add: checkRequired_def)

lemma checkRequired_presence_only:
  "v \<noteq> Null \<Longrightarrow> v \<noteq> Undefined \<Longrightarrow> checkRequired fieldName v False = Inr ()"
  by (simp add: checkRequired_def)

lemma checkRequired_String:
  "checkRequired fieldName (String s) checkEmptyString =
     (if checkEmptyString \<and> trim s = [] then
        Inl \<lparr>code = lit ''missing_required_value'',
             message = fieldName @ lit '' is a required parameter, cannot be left empty''\<rparr>
      else Inr ())"
  by (auto simp add: checkRequired_def lit_Nil trim_def)

lemma checkRequired_not_String:
  assumes "v \<noteq> Null" and "v \<noteq> Undefined" and "\<forall>s. v \<noteq> String s"
  shows "checkRequired fieldName v checkEmptyString = Inr ()"
  using assms by (cases v) (simp_all add: checkRequired_def lit_def)

lemma all_dropWhile_iff: "(\<forall>c\<in>set (dropWhile P s). P c) = (\<forall>c\<in>set s. P c)"
  by (induction s) simp_all

lemma trim_Nil_iff: "(trim s = []) = (\<forall>c\<in>set s. isWhiteSpace c)"
  by (simp add: trim_def all_dropWhile_iff)

lemma arrayRequired_Array:
  "arrayRequired fieldName (Array vs) checkEmptyArray =
     (if checkEmptyArray \<and> vs = [] then
        Inl \<lparr>code = lit ''emtpy_array'',
             message = fieldName @ lit '' needs to be an array with at least one entry''\<rparr>
      else Inr ())"
  by (simp add: arrayRequired_def checkRequired_presence_only)

lemma objectRequired_Array: "objectRequired fieldName (Array vs) checkArray = Inr ()"
  by (simp add: objectRequired_def checkRequired_presence_only)

lemma objectRequired_Object:
  "objectRequired fieldName (Object ps) checkArray =
     (if checkArray then
        Inl \<lparr>code = lit ''invalid_value'', message = fieldName @ lit '' needs to be an array''\<rparr>
      else Inr ())"
  by (simp add: objectRequired_def checkRequired_presence_only)

lemma objectRequired_returns_iff:
  "(objectRequired fieldName v checkArray = Inr ()) =
     ((\<exists>vs. v = Array vs) \<or> (\<not> checkArray \<and> (\<exists>ps. v = Object ps)))"
  by (cases v) (simp_all add: objectRequired_def checkRequired_def lit_def)

lemma code_typo: "lit ''emtpy_array'' \<noteq> lit ''empty_array''"
  by (simp add: lit_def)

lemma checkRequired_error:
  "checkRequired fieldName v b = Inl e \<Longrightarrow>
     code e = lit ''missing_required_value'' \<and> prefix fieldName (message e)"
  by (auto simp add: checkRequired_def split: if_splits)

lemma arrayRequired_error:
  "arrayRequired fieldName v b = Inl e \<Longrightarrow>
     code e \<in> {lit ''missing_required_value'', lit ''invalid_value'', lit ''emtpy_array''}
     \<and> prefix fieldName (message e)"
  by (auto simp add: arrayRequired_def split: sum.splits if_splits dest: checkRequired_error)

lemma integerRequired_error:
  "integerRequired fieldName v b = Inl e \<Longrightarrow>
     code e \<in> {lit ''missing_required_value'', lit ''invalid_value''}
     \<and> prefix fieldName (message e)"
  by (auto simp add: integerRequired_def split: sum.splits if_splits dest: checkRequired_error)

lemma objectRequired_error:
  "objectRequired fieldName v b = Inl e \<Longrightarrow>
     code e \<in> {lit ''missing_required_value'', lit ''invalid_value''}
     \<and> prefix fieldName (message e)"
  by (auto simp add: objectRequired_def split: sum.splits if_splits dest: checkRequired_error)

lemma Number_isInteger_iff:
  "Number_isInteger v = (\<exists>i. v = Number (Finite (of_int i)))"
proof
  assume "Number_isInteger v"
  then obtain q where v: "v = Number (Finite q)" and q: "of_int \<lfloor>q\<rfloor> = q"
    by (cases v rule: Number_isInteger.cases) auto
  from q [symmetric] have "Finite q = Finite (of_int \<lfloor>q\<rfloor>)" by (rule arg_cong)
  with v show "\<exists>i. v = Number (Finite (of_int i))" by blast
next
  assume "\<exists>i. v = Number (Finite (of_int i))"
  then show "Number_isInteger v" by auto
qed

lemma integerRequired_of_int:
  "integerRequired fieldName (Number (Finite (of_int i))) checkPositive =
     (if checkPositive \<and> i \<le> 0 then
        Inl \<lparr>code = lit ''invalid_value'',
             message = fieldName @ lit '' needs to be a positive integer''\<rparr>
      else Inr ())"
  by (simp add: integerRequired_def checkRequired_presence_only)

subsection \<open>Trimming and the trailing slash\<close>

lemma replace_slash_at_end_snoc:
  "replace_slash_at_end (xs @ [c]) = (if c = slash then xs else xs @ [c])"
  by (induction xs) simp_all

lemma removeTrailingSlash_eq:
  "removeTrailingSlash x = (if x \<noteq> [] \<and> last x = slash then butlast x else x)"
proof (cases x rule: rev_cases)
  case Nil
  then show ?thesis by (simp add: removeTrailingSlash_def)
next
  case (snoc xs c)
  then show ?thesis by (simp add: removeTrailingSlash_def replace_slash_at_end_snoc)
qed

lemma removeTrailingSlash_snoc:
  "removeTrailingSlash (xs @ [c]) = (if c = slash then xs else xs @ [c])"
  by (simp add: removeTrailingSlash_def replace_slash_at_end_snoc)

lemma removeTrailingSlash_Nil: "removeTrailingSlash [] = []"
  by (simp add: removeTrailingSlash_def)

lemma removeTrailingSlash_fixed_iff:
  "(removeTrailingSlash x = x) = (x = [] \<or> last x \<noteq> slash)"
  by (cases x rule: rev_cases) (simp_all add: removeTrailingSlash_Nil removeTrailingSlash_snoc)

lemma length_removeTrailingSlash: "length (removeTrailingSlash x) \<le> length x"
  by (cases x rule: rev_cases) (simp_all add: removeTrailingSlash_Nil removeTrailingSlash_snoc)

lemma suffix_one: "suffix [a] xs = (xs \<noteq> [] \<and> last xs = a)"
  by (cases xs rule: rev_cases) auto

lemma suffix_two_snoc: "suffix [a, b] (xs @ [c]) = (b = c \<and> xs \<noteq> [] \<and> last xs = a)"
proof -
  have "suffix [a, b] (xs @ [c]) = suffix ([a] @ [b]) (xs @ [c])" by simp
  also have "\<dots> = (b = c \<and> suffix [a] xs)" by (rule snoc_suffix_snoc)
  finally show ?thesis by (simp add: suffix_one)
qed

lemma removeTrailingSlash_idem_iff:
  "(removeTrailingSlash (removeTrailingSlash x) = removeTrailingSlash x) =
     (\<not> suffix [slash, slash] x)"
proof (cases x rule: rev_cases)
  case Nil
  then show ?thesis by (simp add: removeTrailingSlash_Nil)
next
  case (snoc xs c)
  have "suffix [slash, slash] x = (slash = c \<and> xs \<noteq> [] \<and> last xs = slash)"
    unfolding snoc by (rule suffix_two_snoc)
  then show ?thesis
    unfolding snoc
    by (auto simp add: removeTrailingSlash_snoc removeTrailingSlash_fixed_iff
        simp del: suffix_snoc)
qed

lemma trim_Nil: "trim [] = []"
  by (simp add: trim_def)

lemma length_trim: "length (trim s) \<le> length s"
proof -
  have "length (trim s) \<le> length (dropWhile isWhiteSpace s)"
    unfolding trim_def length_rev using length_dropWhile_le [of isWhiteSpace "rev (dropWhile isWhiteSpace s)"]
    by simp
  also have "\<dots> \<le> length s" by (rule length_dropWhile_le)
  finally show ?thesis .
qed

lemma trim_fixed_iff:
  "(trim s = s) = (s = [] \<or> (\<not> isWhiteSpace (hd s) \<and> \<not> isWhiteSpace (last s)))"
proof (cases "s = []")
  case True
  then show ?thesis by (simp add: trim_Nil)
next
  case False
  show ?thesis
  proof (cases "isWhiteSpace (hd s)")
    case True
    with False have "length (dropWhile isWhiteSpace s) < length s"
      by (cases s) (simp_all add: le_imp_less_Suc length_dropWhile_le)
    moreover have "length (trim s) \<le> length (dropWhile isWhiteSpace s)"
      unfolding trim_def length_rev by (rule length_dropWhile_le [of _ "rev _", unfolded length_rev])
    ultimately have "trim s \<noteq> s" by auto
    with True False show ?thesis by simp
  next
    case hd: False
    with False have d: "dropWhile isWhiteSpace s = s"
      by (simp add: dropWhile_eq_self_iff)
    have "(trim s = s) = (dropWhile isWhiteSpace (rev s) = rev s)"
      unfolding trim_def d by (metis rev_rev_ident)
    also have "\<dots> = (\<not> isWhiteSpace (last s))"
      using False by (simp add: dropWhile_eq_self_iff hd_rev)
    finally show ?thesis using False hd by simp
  qed
qed

lemma trim_ends:
  "trim s = [] \<or> (\<not> isWhiteSpace (hd (trim s)) \<and> \<not> isWhiteSpace (last (trim s)))"
proof (cases "trim s = []")
  case True
  then show ?thesis by simp
next
  case False
  let ?d = "dropWhile isWhiteSpace s"
  let ?e = "dropWhile isWhiteSpace (rev ?d)"
  from False have e: "?e \<noteq> []" by (simp add: trim_def)
  then have d: "?d \<noteq> []" by (cases "?d = []") simp_all
  from e have "\<not> isWhiteSpace (hd ?e)" by (rule hd_dropWhile)
  then have l: "\<not> isWhiteSpace (last (trim s))"
    using e by (simp add: trim_def last_rev)
  from d have hd: "\<not> isWhiteSpace (hd ?d)" by (rule hd_dropWhile)
  from d have "hd ?d \<in> set (rev ?d)" by simp
  from this hd have "last ?e = last (rev ?d)" by (rule dropWhile_last)
  then have "hd (trim s) = hd ?d"
    using e d by (simp add: trim_def hd_rev last_rev)
  with hd l show ?thesis by simp
qed

lemma trim_idem: "trim (trim s) = trim s"
  using trim_ends [of s] by (simp add: trim_fixed_iff)

lemma dropWhile_same_length:
  "length (dropWhile P xs) = length xs \<Longrightarrow> dropWhile P xs = xs"
proof (cases xs)
  case Nil
  then show ?thesis by simp
next
  case (Cons y ys)
  assume l: "length (dropWhile P xs) = length xs"
  show ?thesis
  proof (cases "P y")
    case True
    have "length (dropWhile P ys) \<le> length ys" by (rule length_dropWhile_le)
    with l Cons True show ?thesis by simp
  next
    case False
    with Cons show ?thesis by simp
  qed
qed

lemma trim_same_length:
  assumes "length (trim s) = length s"
  shows "trim s = s"
proof -
  let ?d = "dropWhile isWhiteSpace s"
  have a: "length (trim s) \<le> length ?d"
    unfolding trim_def length_rev
    using length_dropWhile_le [of isWhiteSpace "rev ?d"] by simp
  have b: "length ?d \<le> length s" by (rule length_dropWhile_le)
  from a b assms have "length ?d = length s" by simp
  then have d: "?d = s" by (rule dropWhile_same_length)
  from assms have "length (dropWhile isWhiteSpace (rev s)) = length (rev s)"
    unfolding trim_def d by simp
  then have "dropWhile isWhiteSpace (rev s) = rev s" by (rule dropWhile_same_length)
  then show ?thesis unfolding trim_def d by simp
qed

lemma removeTrailingSlash_trim_fixed_iff:
  "(removeTrailingSlash (trim u) = u) =
     (u = [] \<or> (\<not> isWhiteSpace (hd u) \<and> \<not> isWhiteSpace (last u) \<and> last u \<noteq> slash))"
proof (cases "trim u = u")
  case True
  then have ends: "u = [] \<or> (\<not> isWhiteSpace (hd u) \<and> \<not> isWhiteSpace (last u))"
    by (simp add: trim_fixed_iff)
  have "(removeTrailingSlash (trim u) = u) = (u = [] \<or> last u \<noteq> slash)"
    unfolding True by (rule removeTrailingSlash_fixed_iff)
  with ends show ?thesis by blast
next
  case False
  have "removeTrailingSlash (trim u) \<noteq> u"
  proof
    assume e: "removeTrailingSlash (trim u) = u"
    have "length (removeTrailingSlash (trim u)) \<le> length (trim u)"
      by (rule length_removeTrailingSlash)
    with e have "length u \<le> length (trim u)" by simp
    with length_trim [of u] have "length (trim u) = length u" by simp
    then have "trim u = u" by (rule trim_same_length)
    with False show False by simp
  qed
  with False show ?thesis by (auto simp add: trim_fixed_iff)
qed

lemma normalizeUrl_idem_iff:
  "(normalizeUrl (normalizeUrl x) = normalizeUrl x) =
     (\<not> (\<exists>c. (c = slash \<or> isWhiteSpace c) \<and> suffix [c, slash] (trim x)))"
proof (cases "trim x" rule: rev_cases)
  case Nil
  then show ?thesis
    by (simp add: normalizeUrl_def removeTrailingSlash_Nil trim_Nil)
next
  case (snoc u d)
  have suf: "\<And>c. suffix [c, slash] (trim x) = (slash = d \<and> u \<noteq> [] \<and> last u = c)"
    unfolding snoc by (rule suffix_two_snoc)
  show ?thesis
  proof (cases "d = slash")
    case False
    then have "normalizeUrl x = trim x"
      by (simp add: normalizeUrl_def snoc removeTrailingSlash_snoc)
    moreover have "normalizeUrl (trim x) = trim x"
      using False by (simp add: normalizeUrl_def trim_idem) (simp add: snoc removeTrailingSlash_snoc)
    ultimately show ?thesis using False by (auto simp add: suf)
  next
    case True
    then have n: "normalizeUrl x = u"
      by (simp add: normalizeUrl_def snoc removeTrailingSlash_snoc)
    have hd: "u \<noteq> [] \<Longrightarrow> \<not> isWhiteSpace (hd u)"
      using trim_ends [of x] by (simp add: snoc)
    have "(normalizeUrl u = u) =
        (u = [] \<or> (\<not> isWhiteSpace (hd u) \<and> \<not> isWhiteSpace (last u) \<and> last u \<noteq> slash))"
      unfolding normalizeUrl_def by (rule removeTrailingSlash_trim_fixed_iff)
    also have "\<dots> = (\<not> (u \<noteq> [] \<and> (last u = slash \<or> isWhiteSpace (last u))))"
      using hd by auto
    also have "\<dots> = (\<not> (\<exists>c. (c = slash \<or> isWhiteSpace c) \<and> suffix [c, slash] (trim x)))"
      using True by (auto simp add: suf)
    finally show ?thesis unfolding n .
  qed
qed

section \<open>The empty array and the error codes\<close>

text \<open>
  C1. The claim: for an array of length zero, \<open>arrayRequired(fieldName, v, true)\<close> throws an
  error whose code is exactly \<open>empty_array\<close>, and with the default flag the call returns.
  The source throws the code \<open>emtpy_array\<close>, a different string; the call with the default
  flag returns.
\<close>

theorem arrayRequired_empty_array_code:
  "arrayRequired fieldName (Array []) True =
     Inl \<lparr>code = lit ''emtpy_array'',
          message = fieldName @ lit '' needs to be an array with at least one entry''\<rparr>
   \<and> lit ''emtpy_array'' \<noteq> lit ''empty_array''
   \<and> arrayRequired_default fieldName (Array []) = Inr ()"
  by (simp add: arrayRequired_Array arrayRequired_default_def code_typo)

text \<open>
  C5. The claim: every error of the four validators carries a code of the taxonomy
  \<open>missing_required_value\<close>, \<open>invalid_value\<close>, \<open>empty_array\<close>, and a message that contains the
  field name. At the field name \<open>ids\<close> and the empty array, \<open>arrayRequired\<close> with the flag
  set throws a code outside the taxonomy; its message does contain the field name.
\<close>

theorem arrayRequired_code_outside_taxonomy:
  "arrayRequired (lit ''ids'') (Array []) True =
     Inl \<lparr>code = lit ''emtpy_array'',
          message = lit ''ids needs to be an array with at least one entry''\<rparr>
   \<and> lit ''emtpy_array'' \<notin> valid_codes
   \<and> sublist (lit ''ids'') (lit ''ids needs to be an array with at least one entry'')"
proof -
  have m: "lit ''ids needs to be an array with at least one entry'' =
      lit ''ids'' @ lit '' needs to be an array with at least one entry''"
    by (simp add: lit_def)
  have "lit ''emtpy_array'' \<notin> valid_codes"
    by (simp add: valid_codes_def lit_def)
  then show ?thesis
    unfolding m by (simp add: arrayRequired_Array)
qed

section \<open>Objects and arrays\<close>

text \<open>
  C2, as stated: for every array, \<open>objectRequired\<close> with the default \<open>checkArray = false\<close>
  throws \<open>invalid_value\<close>. It fails at the empty array, where the call returns normally.
\<close>

theorem objectRequired_default_array_counterexample:
  "objectRequired_default (lit ''f'') (Array []) = Inr ()"
  by (simp add: objectRequired_default_def objectRequired_Array)

text \<open>
  C2, amended: for every array and every field name, \<open>objectRequired\<close> with the default
  \<open>checkArray = false\<close> returns normally.
\<close>

theorem objectRequired_default_accepts_arrays:
  "objectRequired_default fieldName (Array vs) = Inr ()"
  by (simp add: objectRequired_default_def objectRequired_Array)

text \<open>
  C3, as stated: a value accepted with \<open>checkArray = false\<close> is accepted with
  \<open>checkArray = true\<close>. It fails at the object \<open>{}\<close>, accepted without the flag and
  rejected with it.
\<close>

theorem objectRequired_checkArray_counterexample:
  "objectRequired (lit ''f'') (Object []) False = Inr ()
   \<and> objectRequired (lit ''f'') (Object []) True =
       Inl \<lparr>code = lit ''invalid_value'', message = lit ''f needs to be an array''\<rparr>"
  by (simp add: objectRequired_Object) (simp add: lit_def)

text \<open>
  C3, amended: enabling \<open>checkArray\<close> only narrows the acceptance of \<open>objectRequired\<close>.
  A value accepted with \<open>checkArray = true\<close> is accepted with \<open>checkArray = false\<close>; every
  array is accepted with either flag; an object that is not an array is accepted with
  \<open>checkArray = false\<close> and rejected with code \<open>invalid_value\<close> with \<open>checkArray = true\<close>.
\<close>

theorem objectRequired_checkArray_narrows:
  "(objectRequired fieldName v True = Inr () \<longrightarrow> objectRequired fieldName v False = Inr ())
   \<and> objectRequired fieldName (Array vs) True = Inr ()
   \<and> objectRequired fieldName (Array vs) False = Inr ()
   \<and> objectRequired fieldName (Object ps) False = Inr ()
   \<and> objectRequired fieldName (Object ps) True =
       Inl \<lparr>code = lit ''invalid_value'', message = fieldName @ lit '' needs to be an array''\<rparr>"
  by (simp add: objectRequired_returns_iff objectRequired_Object)

theorem objectRequired_checkArray_narrows_witness:
  "objectRequired (lit ''f'') (Array [Null]) True = Inr ()
   \<and> objectRequired (lit ''f'') (Array [Null]) False = Inr ()
   \<and> objectRequired (lit ''f'') (Object []) False = Inr ()
   \<and> objectRequired (lit ''f'') (Object []) True =
       Inl \<lparr>code = lit ''invalid_value'', message = lit ''f needs to be an array''\<rparr>"
proof -
  have a: "objectRequired (lit ''f'') (Array [Null]) True = Inr ()"
    by (simp add: objectRequired_def checkRequired_def)
  have m: "lit ''f'' @ lit '' needs to be an array'' = lit ''f needs to be an array''"
    by (simp add: lit_def)
  show ?thesis
    using a objectRequired_checkArray_narrows [of "lit ''f''" "Array [Null]" "[Null]" "[]"]
    by (simp add: m)
qed

section \<open>Presence\<close>

text \<open>
  C6. \<open>checkRequired\<close> throws \<open>missing_required_value\<close> on \<open>null\<close> and on \<open>undefined\<close>,
  whatever the flag, and with \<open>checkEmptyString\<close> set also on a string \<open>s\<close> that is empty or
  made of white space only. On a string \<open>t\<close> with a character that is not white space it
  returns normally, with either flag and with the default, and
  \<open>checkRequired("f", "   ", false)\<close> returns normally.
\<close>

theorem checkRequired_missing_required_value:
  "checkRequired fieldName Null checkEmptyString =
     Inl \<lparr>code = lit ''missing_required_value'',
          message = fieldName @ lit '' is a required parameter, cannot be left empty''\<rparr>
   \<and> checkRequired fieldName Undefined checkEmptyString =
     Inl \<lparr>code = lit ''missing_required_value'',
          message = fieldName @ lit '' is a required parameter, cannot be left empty''\<rparr>
   \<and> ((\<forall>c\<in>set s. isWhiteSpace c) \<longrightarrow>
        checkRequired fieldName (String s) True =
          Inl \<lparr>code = lit ''missing_required_value'',
               message = fieldName @ lit '' is a required parameter, cannot be left empty''\<rparr>)
   \<and> ((\<exists>c\<in>set t. \<not> isWhiteSpace c) \<longrightarrow>
        checkRequired fieldName (String t) checkEmptyString = Inr ()
        \<and> checkRequired_default fieldName (String t) = Inr ())
   \<and> checkRequired (lit ''f'') (String (lit ''   '')) False = Inr ()"
proof -
  have blank: "(\<forall>c\<in>set s. isWhiteSpace c) \<longrightarrow> trim s = []"
    by (simp add: trim_Nil_iff)
  have nonblank: "(\<exists>c\<in>set t. \<not> isWhiteSpace c) \<longrightarrow> trim t \<noteq> []"
    by (simp add: trim_Nil_iff)
  show ?thesis
    using blank nonblank
    by (simp add: checkRequired_absent checkRequired_String checkRequired_default_def)
qed

theorem checkRequired_missing_required_value_witness:
  "checkRequired (lit ''f'') (String (lit ''   '')) True =
     Inl \<lparr>code = lit ''missing_required_value'',
          message = lit ''f is a required parameter, cannot be left empty''\<rparr>
   \<and> checkRequired (lit ''f'') (String (lit '''')) True =
     Inl \<lparr>code = lit ''missing_required_value'',
          message = lit ''f is a required parameter, cannot be left empty''\<rparr>
   \<and> checkRequired (lit ''f'') (String (lit '' a b '')) True = Inr ()
   \<and> checkRequired (lit ''f'') (String (lit '' a b '')) False = Inr ()
   \<and> checkRequired_default (lit ''f'') (String (lit '' a b '')) = Inr ()"
proof -
  have m: "lit ''f'' @ lit '' is a required parameter, cannot be left empty'' =
      lit ''f is a required parameter, cannot be left empty''"
    by (simp add: lit_def)
  have b1: "\<forall>c\<in>set (lit ''   ''). isWhiteSpace c"
    by (simp add: lit_def isWhiteSpace_def)
  have b2: "\<forall>c\<in>set (lit ''''). isWhiteSpace c"
    by (simp add: lit_def)
  have n: "\<exists>c\<in>set (lit '' a b ''). \<not> isWhiteSpace c"
    by (simp add: lit_def isWhiteSpace_def)
  show ?thesis
    using b1 b2 n
      checkRequired_missing_required_value [of "lit ''f''" True "lit ''   ''" "lit '' a b ''"]
      checkRequired_missing_required_value [of "lit ''f''" False "lit ''''" "lit '' a b ''"]
    by (simp add: m)
qed

section \<open>Integers\<close>

text \<open>
  C7. \<open>integerRequired\<close> throws \<open>invalid_value\<close> on every value \<open>v\<close> that is present and not
  a whole number, whatever the flag (so on 3.5), and with \<open>checkPositive\<close> set on every
  integer \<open>i \<le> 0\<close> (so on -2 with the default flag); \<open>integerRequired("f", -2, false)\<close> and
  \<open>integerRequired("f", 5)\<close> return normally.
\<close>

theorem integerRequired_invalid_value:
  "(v \<noteq> Null \<and> v \<noteq> Undefined \<and> \<not> Number_isInteger v \<longrightarrow>
      integerRequired fieldName v checkPositive =
        Inl \<lparr>code = lit ''invalid_value'', message = fieldName @ lit '' needs to be an integer''\<rparr>)
   \<and> (i \<le> 0 \<longrightarrow>
      integerRequired fieldName (Number (Finite (of_int i))) True =
        Inl \<lparr>code = lit ''invalid_value'',
             message = fieldName @ lit '' needs to be a positive integer''\<rparr>)
   \<and> integerRequired fieldName (Number (Finite (7 / 2))) checkPositive =
        Inl \<lparr>code = lit ''invalid_value'', message = fieldName @ lit '' needs to be an integer''\<rparr>
   \<and> integerRequired_default fieldName (Number (Finite (- 2))) =
        Inl \<lparr>code = lit ''invalid_value'',
             message = fieldName @ lit '' needs to be a positive integer''\<rparr>
   \<and> integerRequired (lit ''f'') (Number (Finite (- 2))) False = Inr ()
   \<and> integerRequired_default (lit ''f'') (Number (Finite 5)) = Inr ()"
proof -
  have frac: "\<not> Number_isInteger (Number (Finite (7 / 2)))"
    by code_simp
  have neg: "Number (Finite (- 2)) = Number (Finite (of_int (- 2)))"
    by simp
  have pos: "Number (Finite 5) = Number (Finite (of_int 5))"
    by simp
  have c1: "v \<noteq> Null \<and> v \<noteq> Undefined \<and> \<not> Number_isInteger v \<longrightarrow>
      integerRequired fieldName v checkPositive =
        Inl \<lparr>code = lit ''invalid_value'', message = fieldName @ lit '' needs to be an integer''\<rparr>"
    by (simp add: integerRequired_def checkRequired_presence_only)
  have c3: "integerRequired fieldName (Number (Finite (7 / 2))) checkPositive =
        Inl \<lparr>code = lit ''invalid_value'', message = fieldName @ lit '' needs to be an integer''\<rparr>"
    using frac by (simp add: integerRequired_def checkRequired_presence_only del: Number_isInteger.simps)
  have c4: "integerRequired_default fieldName (Number (Finite (- 2))) =
        Inl \<lparr>code = lit ''invalid_value'',
             message = fieldName @ lit '' needs to be a positive integer''\<rparr>"
    unfolding neg integerRequired_default_def integerRequired_of_int by simp
  have c5: "integerRequired (lit ''f'') (Number (Finite (- 2))) False = Inr ()"
    unfolding neg integerRequired_of_int by simp
  have c6: "integerRequired_default (lit ''f'') (Number (Finite 5)) = Inr ()"
    unfolding pos integerRequired_default_def integerRequired_of_int by simp
  show ?thesis
    using c1 c3 c4 c5 c6 by (simp add: integerRequired_of_int)
qed

theorem integerRequired_invalid_value_witness:
  "integerRequired (lit ''f'') (String (lit ''5'')) False =
     Inl \<lparr>code = lit ''invalid_value'', message = lit ''f needs to be an integer''\<rparr>
   \<and> integerRequired (lit ''f'') (Number (Finite 0)) True =
     Inl \<lparr>code = lit ''invalid_value'', message = lit ''f needs to be a positive integer''\<rparr>"
proof -
  have m1: "lit ''f'' @ lit '' needs to be an integer'' = lit ''f needs to be an integer''"
    by (simp add: lit_def)
  have m2: "lit ''f'' @ lit '' needs to be a positive integer'' =
      lit ''f needs to be a positive integer''"
    by (simp add: lit_def)
  have h: "String (lit ''5'') \<noteq> Null \<and> String (lit ''5'') \<noteq> Undefined
      \<and> \<not> Number_isInteger (String (lit ''5''))"
    by simp
  have z: "(0::int) \<le> 0" by simp
  show ?thesis
    using h z integerRequired_invalid_value [of "String (lit ''5'')" "lit ''f''" False 0]
    by (simp add: m1 m2)
qed

section \<open>Arrays\<close>

text \<open>
  C8. \<open>arrayRequired\<close> first applies the presence check with the string check disabled:
  on \<open>null\<close> and on \<open>undefined\<close> it throws \<open>missing_required_value\<close>, and whenever
  \<open>checkRequired(fieldName, v, false)\<close> throws an error, \<open>arrayRequired\<close> throws that very
  error. Every string \<open>s\<close>, the empty one too, passes that presence check. On every value
  that is present and not an array, so on every string, \<open>arrayRequired\<close> throws
  \<open>invalid_value\<close>; \<open>arrayRequired("f", "not-an-array")\<close> throws \<open>invalid_value\<close>.
\<close>

theorem arrayRequired_not_array:
  "arrayRequired fieldName Null checkEmptyArray =
     Inl \<lparr>code = lit ''missing_required_value'',
          message = fieldName @ lit '' is a required parameter, cannot be left empty''\<rparr>
   \<and> arrayRequired fieldName Undefined checkEmptyArray =
     Inl \<lparr>code = lit ''missing_required_value'',
          message = fieldName @ lit '' is a required parameter, cannot be left empty''\<rparr>
   \<and> (checkRequired fieldName v False = Inl e \<longrightarrow>
        arrayRequired fieldName v checkEmptyArray = Inl e)
   \<and> checkRequired fieldName (String s) False = Inr ()
   \<and> (v \<noteq> Null \<and> v \<noteq> Undefined \<and> \<not> Array_isArray v \<longrightarrow>
        arrayRequired fieldName v checkEmptyArray =
          Inl \<lparr>code = lit ''invalid_value'', message = fieldName @ lit '' needs to be an array''\<rparr>)
   \<and> arrayRequired fieldName (String s) checkEmptyArray =
        Inl \<lparr>code = lit ''invalid_value'', message = fieldName @ lit '' needs to be an array''\<rparr>
   \<and> arrayRequired_default (lit ''f'') (String (lit ''not-an-array'')) =
        Inl \<lparr>code = lit ''invalid_value'', message = lit ''f needs to be an array''\<rparr>"
proof -
  have m: "lit ''f needs to be an array'' = lit ''f'' @ lit '' needs to be an array''"
    by (simp add: lit_def)
  have absent: "arrayRequired fieldName Null checkEmptyArray =
        Inl \<lparr>code = lit ''missing_required_value'',
             message = fieldName @ lit '' is a required parameter, cannot be left empty''\<rparr>
      \<and> arrayRequired fieldName Undefined checkEmptyArray =
        Inl \<lparr>code = lit ''missing_required_value'',
             message = fieldName @ lit '' is a required parameter, cannot be left empty''\<rparr>"
    by (simp add: arrayRequired_def checkRequired_absent)
  have first: "checkRequired fieldName v False = Inl e \<longrightarrow>
      arrayRequired fieldName v checkEmptyArray = Inl e"
    by (simp add: arrayRequired_def)
  have rest: "checkRequired fieldName (String s) False = Inr ()
      \<and> (v \<noteq> Null \<and> v \<noteq> Undefined \<and> \<not> Array_isArray v \<longrightarrow>
        arrayRequired fieldName v checkEmptyArray =
          Inl \<lparr>code = lit ''invalid_value'', message = fieldName @ lit '' needs to be an array''\<rparr>)
      \<and> arrayRequired fieldName (String s) checkEmptyArray =
        Inl \<lparr>code = lit ''invalid_value'', message = fieldName @ lit '' needs to be an array''\<rparr>
      \<and> arrayRequired_default (lit ''f'') (String (lit ''not-an-array'')) =
        Inl \<lparr>code = lit ''invalid_value'', message = lit ''f needs to be an array''\<rparr>"
    unfolding m
    by (simp add: arrayRequired_def arrayRequired_default_def checkRequired_presence_only)
  from absent first rest show ?thesis by blast
qed

theorem arrayRequired_not_array_witness:
  "arrayRequired (lit ''f'') (Number (Finite 3)) True =
     Inl \<lparr>code = lit ''invalid_value'', message = lit ''f needs to be an array''\<rparr>
   \<and> arrayRequired (lit ''f'') (String (lit '''')) False =
     Inl \<lparr>code = lit ''invalid_value'', message = lit ''f needs to be an array''\<rparr>
   \<and> checkRequired (lit ''f'') Null False =
     Inl \<lparr>code = lit ''missing_required_value'',
          message = lit ''f is a required parameter, cannot be left empty''\<rparr>
   \<and> arrayRequired (lit ''f'') Null True =
     Inl \<lparr>code = lit ''missing_required_value'',
          message = lit ''f is a required parameter, cannot be left empty''\<rparr>"
proof -
  have m: "lit ''f'' @ lit '' needs to be an array'' = lit ''f needs to be an array''"
    by (simp add: lit_def)
  have r: "lit ''f'' @ lit '' is a required parameter, cannot be left empty'' =
      lit ''f is a required parameter, cannot be left empty''"
    by (simp add: lit_def)
  have h: "Number (Finite 3) \<noteq> Null \<and> Number (Finite 3) \<noteq> Undefined
      \<and> \<not> Array_isArray (Number (Finite 3))"
    by simp
  have p: "checkRequired (lit ''f'') Null False =
      Inl \<lparr>code = lit ''missing_required_value'',
           message = lit ''f is a required parameter, cannot be left empty''\<rparr>"
    by (simp add: checkRequired_def r)
  show ?thesis
    using h p
      arrayRequired_not_array [where fieldName = "lit ''f''" and s = "lit ''''"
        and v = "Number (Finite 3)" and checkEmptyArray = True]
      arrayRequired_not_array [where fieldName = "lit ''f''" and s = "lit ''''"
        and v = "Number (Finite 3)" and checkEmptyArray = False]
      arrayRequired_not_array [where fieldName = "lit ''f''" and v = Null
        and checkEmptyArray = True
        and e = "\<lparr>code = lit ''missing_required_value'',
           message = lit ''f is a required parameter, cannot be left empty''\<rparr>"]
    by (simp add: m r)
qed

section \<open>Absent values\<close>

text \<open>
  C9. On \<open>null\<close> and on \<open>undefined\<close>, \<open>checkRequired\<close> throws \<open>missing_required_value\<close>
  whatever its flag, and each of \<open>arrayRequired\<close>, \<open>integerRequired\<close> and \<open>objectRequired\<close>
  throws the very error of its presence check, whatever its flag: no check on the type is
  reached.
\<close>

theorem validators_absent_value:
  "checkRequired fieldName Null checkEmptyString =
     Inl \<lparr>code = lit ''missing_required_value'',
          message = fieldName @ lit '' is a required parameter, cannot be left empty''\<rparr>
   \<and> checkRequired fieldName Undefined checkEmptyString =
     Inl \<lparr>code = lit ''missing_required_value'',
          message = fieldName @ lit '' is a required parameter, cannot be left empty''\<rparr>
   \<and> arrayRequired fieldName Null checkEmptyArray = checkRequired fieldName Null False
   \<and> arrayRequired fieldName Undefined checkEmptyArray = checkRequired fieldName Undefined False
   \<and> integerRequired fieldName Null checkPositive = checkRequired fieldName Null False
   \<and> integerRequired fieldName Undefined checkPositive = checkRequired fieldName Undefined False
   \<and> objectRequired fieldName Null checkArray = checkRequired fieldName Null False
   \<and> objectRequired fieldName Undefined checkArray = checkRequired fieldName Undefined False"
  by (simp add: checkRequired_absent arrayRequired_def integerRequired_def objectRequired_def)

section \<open>Present values\<close>

text \<open>
  C10. \<open>checkRequired\<close> returns normally, with either flag, on every value that is not
  \<open>null\<close>, not \<open>undefined\<close> and not a string: in particular on \<open>0\<close>, \<open>false\<close> and \<open>NaN\<close>.
  It returns normally on the empty string when \<open>checkEmptyString\<close> is false.
\<close>

theorem checkRequired_accepts_present_values:
  "(v \<noteq> Null \<and> v \<noteq> Undefined \<and> (\<forall>s. v \<noteq> String s) \<longrightarrow>
      checkRequired fieldName v checkEmptyString = Inr ())
   \<and> checkRequired fieldName (Number (Finite 0)) checkEmptyString = Inr ()
   \<and> checkRequired fieldName (Boolean False) checkEmptyString = Inr ()
   \<and> checkRequired fieldName (Number NaN) checkEmptyString = Inr ()
   \<and> checkRequired fieldName (String (lit '''')) False = Inr ()"
  by (simp add: checkRequired_not_String checkRequired_String)

theorem checkRequired_accepts_present_values_witness:
  "checkRequired (lit ''f'') (Array []) True = Inr ()
   \<and> checkRequired (lit ''f'') (Array []) False = Inr ()"
proof -
  have h: "Array [] \<noteq> Null \<and> Array [] \<noteq> Undefined \<and> (\<forall>s. Array [] \<noteq> String s)"
    by simp
  show ?thesis
    using h checkRequired_accepts_present_values [of "Array []" "lit ''f''" True]
      checkRequired_accepts_present_values [of "Array []" "lit ''f''" False]
    by simp
qed

section \<open>The URL helpers\<close>

text \<open>
  C4, as stated: \<open>removeTrailingSlash\<close> and \<open>normalizeUrl\<close> are idempotent. Both fail at
  \<open>"a//"\<close>: one call gives \<open>"a/"\<close>, a second call gives \<open>"a"\<close>.
\<close>

theorem url_helpers_idempotent_counterexample:
  "removeTrailingSlash (removeTrailingSlash (lit ''a//'')) \<noteq> removeTrailingSlash (lit ''a//'')
   \<and> normalizeUrl (normalizeUrl (lit ''a//'')) \<noteq> normalizeUrl (lit ''a//'')"
  by (simp add: normalizeUrl_def removeTrailingSlash_def trim_def isWhiteSpace_def lit_def slash_def)

text \<open>
  C4, amended: \<open>removeTrailingSlash\<close> strips exactly one trailing \<open>/\<close> if there is one, and
  \<open>normalizeUrl\<close> trims the white space at both ends and then applies
  \<open>removeTrailingSlash\<close>. A second call of \<open>removeTrailingSlash\<close> changes nothing exactly
  when \<open>x\<close> does not end in two slashes; a second call of \<open>normalizeUrl\<close> changes nothing
  exactly when the trimmed \<open>x\<close> does not end in a slash that follows a slash or a white
  space character.
\<close>

theorem url_helpers_idempotent_iff:
  "removeTrailingSlash x = (if x \<noteq> [] \<and> last x = slash then butlast x else x)
   \<and> normalizeUrl x = removeTrailingSlash (trim x)
   \<and> (removeTrailingSlash (removeTrailingSlash x) = removeTrailingSlash x) =
       (\<not> suffix [slash, slash] x)
   \<and> (normalizeUrl (normalizeUrl x) = normalizeUrl x) =
       (\<not> (\<exists>c. (c = slash \<or> isWhiteSpace c) \<and> suffix [c, slash] (trim x)))"
proof -
  have a: "removeTrailingSlash x = (if x \<noteq> [] \<and> last x = slash then butlast x else x)"
    by (rule removeTrailingSlash_eq)
  have b: "normalizeUrl x = removeTrailingSlash (trim x)"
    by (rule normalizeUrl_def)
  note c = removeTrailingSlash_idem_iff [of x]
  note d = normalizeUrl_idem_iff [of x]
  from a b c d show ?thesis by blast
qed

theorem url_helpers_idempotent_iff_witness:
  "removeTrailingSlash (lit ''a/b/'') = lit ''a/b''
   \<and> normalizeUrl (lit ''  https://x.com/  '') = lit ''https://x.com''"
proof -
  have t: "trim (lit ''  https://x.com/  '') = lit ''https://x.com/''"
    by (simp add: trim_def lit_def isWhiteSpace_def)
  have r: "removeTrailingSlash (lit ''https://x.com/'') = lit ''https://x.com''"
    using url_helpers_idempotent_iff [of "lit ''https://x.com/''"]
    by (simp add: lit_def slash_def)
  show ?thesis
    using url_helpers_idempotent_iff [of "lit ''a/b/''"]
      url_helpers_idempotent_iff [of "lit ''  https://x.com/  ''"]
    by (simp add: t r) (simp add: lit_def slash_def)
qed

end
